theory Spec2Isabelle
  imports Main "HOL-Library.AList" "HOL-Library.Word"
begin

section \<open>Values thrown and values rendered\<close>

text \<open>
  Everything the TypeScript code throws is either an \<open>Error\<close> object carrying a message
  or some other value; the two \<open>catch\<close> blocks of \<open>MulticallService\<close> distinguish exactly
  these two cases with \<open>error instanceof Error\<close>. A computation that may throw returns
  \<open>js_thrown + 'a\<close>, with \<open>Inl\<close> for the thrown value.
\<close>

datatype js_thrown = JsError string | NonError

text \<open>
  Template literals render a chain id with \<open>Number.prototype.toString\<close> and a decoded
  balance with \<open>BigInt.prototype.toString\<close>. Chain ids are modelled as integers. For a safe
  integer of JavaScript (magnitude below \<open>2^53\<close>) the rendering is the plain decimal
  numeral, with a leading minus sign for a negative number, and \<open>Number_toString\<close> is that
  numeral. Outside this range JavaScript rounds the digits and, from \<open>10^21\<close>, writes an
  exponent, which \<open>Number_toString\<close> does not follow: there the digits of the chain id
  inside an error message are not those of the code (which error is thrown, and when, does
  not depend on them).
\<close>

definition digit_char :: "nat \<Rightarrow> char" where
  "digit_char d = ''0123456789'' ! d"

fun BigInt_toString :: "nat \<Rightarrow> string" where
  "BigInt_toString n =
     (if n < 10 then [digit_char n]
      else BigInt_toString (n div 10) @ [digit_char (n mod 10)])"

declare BigInt_toString.simps [simp del]

definition Number_toString :: "int \<Rightarrow> string" where
  "Number_toString c =
     (if c < 0 then CHR ''-'' # BigInt_toString (nat (- c)) else BigInt_toString (nat c))"

section \<open>The ethers library, as far as the code calls it\<close>

text \<open>
  The library is not part of the repository, so each of its entry points that the code
  calls is a field of the record \<open>ethers\<close>; the theorems hold for every such record.
  \<^item> \<open>URL_ctor url\<close>: \<open>new URL(url)\<close> returns (does not throw);
  \<^item> \<open>Wallet_ctor key\<close>: what \<open>new ethers.Wallet(key)\<close> throws, \<open>None\<close> when it returns;
  \<^item> \<open>encodeFunctionData owner\<close>: \<open>erc20Interface.encodeFunctionData("balanceOf", [owner])\<close>;
  \<^item> \<open>aggregate provider address calls\<close>: \<open>await multicall.aggregate(calls)\<close> on the contract
    object bound to \<open>address\<close> and \<open>provider\<close>: the pair \<open>(blockNumber, returnData)\<close>, or
    what the call throws;
  \<^item> \<open>tryAggregate provider address requireSuccess calls\<close>: likewise for
    \<open>await multicall.tryAggregate(requireSuccess, calls)\<close>;
  \<^item> \<open>decode_uint256 data\<close>: \<open>AbiCoder.defaultAbiCoder().decode(["uint256"], data)[0]\<close>.
\<close>

datatype JsonRpcProvider = JsonRpcProvider string

datatype Wallet = Wallet string JsonRpcProvider

record call =
  target :: string
  callData :: string

record CallResult =
  success :: bool
  returnData :: string

record ethers =
  URL_ctor :: "string \<Rightarrow> bool"
  Wallet_ctor :: "string \<Rightarrow> js_thrown option"
  encodeFunctionData :: "string \<Rightarrow> js_thrown + string"
  aggregate :: "JsonRpcProvider \<Rightarrow> string \<Rightarrow> call list \<Rightarrow> js_thrown + (256 word \<times> string list)"
  tryAggregate :: "JsonRpcProvider \<Rightarrow> string \<Rightarrow> bool \<Rightarrow> call list \<Rightarrow> js_thrown + (bool \<times> string) list"
  decode_uint256 :: "string \<Rightarrow> js_thrown + 256 word"

text \<open>
  The array \<open>returnData\<close> that \<open>aggregate\<close> resolves to is an ethers (version 6) \<open>Result\<close>;
  its index accessor throws a \<open>RangeError\<close> for an index outside the array. (On a plain
  array the read would give \<open>undefined\<close> and \<open>decode\<close> would throw on it: either way an
  \<open>Error\<close> is thrown inside the \<open>try\<close> block; only its message differs.)
\<close>

definition Result_index :: "string list \<Rightarrow> nat \<Rightarrow> js_thrown + string" where
  "Result_index xs i =
     (if i < length xs then Inr (xs ! i) else Inl (JsError ''out of result range''))"

section \<open>ValidationUtils\<close>

definition isValidPrivateKey :: "ethers \<Rightarrow> string \<Rightarrow> bool" where
  "isValidPrivateKey E privateKey =
     (let privateKey' = (if take 2 privateKey = ''0x'' then privateKey else ''0x'' @ privateKey)
      in Wallet_ctor E privateKey' = None)"

definition isValidRpcUrl :: "ethers \<Rightarrow> string \<Rightarrow> bool" where
  "isValidRpcUrl E url = URL_ctor E url"

section \<open>ProviderManager\<close>

record ProviderManager =
  providers :: "int \<Rightarrow> JsonRpcProvider option"
  signers :: "int \<Rightarrow> Wallet option"
  defaultChainId :: int

text \<open>
  \<open>chainId || this.defaultChainId\<close>: an omitted chain id and the chain id \<open>0\<close> both fall
  back to the default chain.
\<close>

definition getProvider :: "ProviderManager \<Rightarrow> int option \<Rightarrow> js_thrown + JsonRpcProvider" where
  "getProvider pm chainId =
     (let id = (case chainId of
                  None \<Rightarrow> defaultChainId pm
                | Some c \<Rightarrow> if c = 0 then defaultChainId pm else c)
      in case providers pm id of
           None \<Rightarrow> Inl (JsError (''Provider not found for chain ID '' @ Number_toString id))
         | Some provider \<Rightarrow> Inr provider)"

text \<open>
  \<open>addProvider\<close> returns the manager as the call leaves it, together with the outcome.
  \<open>if (privateKey)\<close> is false for an omitted key and for the empty string.
\<close>

definition addProvider ::
  "ethers \<Rightarrow> ProviderManager \<Rightarrow> string \<Rightarrow> int \<Rightarrow> string option \<Rightarrow> ProviderManager \<times> (js_thrown + unit)"
where
  "addProvider E pm rpcUrl chainId privateKey =
     (if \<not> isValidRpcUrl E rpcUrl then (pm, Inl (JsError ''Invalid RPC URL''))
      else
        let provider = JsonRpcProvider rpcUrl;
            pm1 = pm\<lparr>providers := (providers pm)(chainId \<mapsto> provider)\<rparr>
        in case privateKey of
             None \<Rightarrow> (pm1, Inr ())
           | Some key \<Rightarrow>
               if key = [] then (pm1, Inr ())
               else if \<not> isValidPrivateKey E key then (pm1, Inl (JsError ''Invalid private key''))
               else (case Wallet_ctor E key of
                       Some thrown \<Rightarrow> (pm1, Inl thrown)
                     | None \<Rightarrow>
                         (pm1\<lparr>signers := (signers pm1)(chainId \<mapsto> Wallet key provider)\<rparr>, Inr ())))"

section \<open>MulticallService\<close>

definition MULTICALL2_ADDRESSES :: "(int \<times> string) list" where
  "MULTICALL2_ADDRESSES =
     [(1, ''0x5BA1e12693Dc8F9c48aAD8770482f4739bEeD696''),
      (137, ''0x275617327c958bD06b5D6b871E7f491D76113dd8''),
      (56, ''0xa9193376D09C7f31283C54e56D013fCF370Cd9D9''),
      (8453, ''0xcA11bde05977b3631167028862bE2a173976CA11''),
      (10, ''0xcA11bde05977b3631167028862bE2a173976CA11''),
      (42161, ''0xcA11bde05977b3631167028862bE2a173976CA11'')]"

text \<open>\<open>!address\<close> holds for a missing entry and for the empty string.\<close>

definition getMulticallAddress :: "int \<Rightarrow> js_thrown + string" where
  "getMulticallAddress chainId =
     (case map_of MULTICALL2_ADDRESSES chainId of
        None \<Rightarrow> Inl (JsError (''Multicall2 address not found for chain ID '' @ Number_toString chainId))
      | Some address \<Rightarrow>
          if address = [] then
            Inl (JsError (''Multicall2 address not found for chain ID '' @ Number_toString chainId))
          else Inr address)"

text \<open>
  Each operation awaits at most one method of the contract object, \<open>multicall.aggregate\<close>
  or \<open>multicall.tryAggregate\<close>, and nothing else in the service reaches the network. An
  operation returns the list of the contract method calls it made, with their arguments,
  beside its outcome. Whether the library sends such a call to the chain or rejects its
  arguments first is the library's affair: either way the outcome of the call is what the
  field \<open>aggregate\<close> or \<open>tryAggregate\<close> returns.
\<close>

datatype rpc_event =
  AggregateCall JsonRpcProvider string "call list"
| TryAggregateCall JsonRpcProvider string bool "call list"

text \<open>The default parameters \<open>chainId: number = 1\<close> and \<open>requireSuccess: boolean = false\<close>.\<close>

definition chainId_or_default :: "int option \<Rightarrow> int" where
  "chainId_or_default chainId = (case chainId of None \<Rightarrow> 1 | Some c \<Rightarrow> c)"

definition requireSuccess_or_default :: "bool option \<Rightarrow> bool" where
  "requireSuccess_or_default requireSuccess = (case requireSuccess of None \<Rightarrow> False | Some b \<Rightarrow> b)"

record Erc20BatchBalanceParams =
  ownerAddress :: string
  tokenAddresses :: "string list"

text \<open>\<open>tokenAddresses.map(...)\<close>: one call per token, the owner encoded anew for each.\<close>

fun prepare_calls :: "ethers \<Rightarrow> string \<Rightarrow> string list \<Rightarrow> js_thrown + call list" where
  "prepare_calls E owner [] = Inr []"
| "prepare_calls E owner (tokenAddress # rest) =
     (case encodeFunctionData E owner of
        Inl thrown \<Rightarrow> Inl thrown
      | Inr data \<Rightarrow>
          (case prepare_calls E owner rest of
             Inl thrown \<Rightarrow> Inl thrown
           | Inr calls \<Rightarrow> Inr (\<lparr>target = tokenAddress, callData = data\<rparr> # calls)))"

text \<open>
  The \<open>for\<close> loop over \<open>i\<close>. The \<open>Map\<close> is an association list in insertion order:
  \<open>balances.set\<close> replaces the value of a key that is present, in place, and appends a
  new key otherwise, which is \<open>AList.update\<close>. Keys are compared as strings.
\<close>

function process_results ::
  "ethers \<Rightarrow> string list \<Rightarrow> string list \<Rightarrow> nat \<Rightarrow> (string \<times> string) list
     \<Rightarrow> js_thrown + (string \<times> string) list"
where
  "process_results E tokens rData i balances =
     (if i < length tokens then
        (case Result_index rData i of
           Inl thrown \<Rightarrow> Inl thrown
         | Inr bytes \<Rightarrow>
             (case decode_uint256 E bytes of
                Inl thrown \<Rightarrow> Inl thrown
              | Inr balance \<Rightarrow>
                  process_results E tokens rData (Suc i)
                    (AList.update (tokens ! i) (BigInt_toString (unat balance)) balances)))
      else Inr balances)"
  by pat_completeness auto
termination
  by (relation "measure (\<lambda>(E, tokens, rData, i, balances). length tokens - i)") auto

declare process_results.simps [simp del]

definition batch_balances_failure :: "js_thrown \<Rightarrow> js_thrown" where
  "batch_balances_failure thrown =
     (case thrown of
        JsError message \<Rightarrow> JsError (''Failed to get batch balances: '' @ message)
      | NonError \<Rightarrow> JsError ''Failed to get batch balances: Unknown error occurred'')"

definition getErc20BatchBalances ::
  "ethers \<Rightarrow> ProviderManager \<Rightarrow> Erc20BatchBalanceParams \<Rightarrow> int option
     \<Rightarrow> rpc_event list \<times> (js_thrown + (string \<times> string) list)"
where
  "getErc20BatchBalances E pm params chainId' =
     (let chainId = chainId_or_default chainId' in
      case getProvider pm (Some chainId) of
        Inl thrown \<Rightarrow> ([], Inl thrown)
      | Inr provider \<Rightarrow>
      (case getMulticallAddress chainId of
        Inl thrown \<Rightarrow> ([], Inl thrown)
      | Inr address \<Rightarrow>
      (case prepare_calls E (ownerAddress params) (tokenAddresses params) of
        Inl thrown \<Rightarrow> ([], Inl thrown)
      | Inr calls \<Rightarrow>
          ([AggregateCall provider address calls],
           (case aggregate E provider address calls of
              Inl thrown \<Rightarrow> Inl (batch_balances_failure thrown)
            | Inr (blockNumber, rData) \<Rightarrow>
                (case process_results E (tokenAddresses params) rData 0 [] of
                   Inl thrown \<Rightarrow> Inl (batch_balances_failure thrown)
                 | Inr balances \<Rightarrow> Inr balances))))))"

definition batch_calls_failure :: "js_thrown \<Rightarrow> js_thrown" where
  "batch_calls_failure thrown =
     (case thrown of
        JsError message \<Rightarrow> JsError (''Failed to batch calls: '' @ message)
      | NonError \<Rightarrow> JsError ''Failed to batch calls: Unknown error occurred'')"

definition batchCalls ::
  "ethers \<Rightarrow> ProviderManager \<Rightarrow> call list \<Rightarrow> int option \<Rightarrow> bool option
     \<Rightarrow> rpc_event list \<times> (js_thrown + CallResult list)"
where
  "batchCalls E pm calls chainId' requireSuccess' =
     (let chainId = chainId_or_default chainId';
          requireSuccess = requireSuccess_or_default requireSuccess' in
      case getProvider pm (Some chainId) of
        Inl thrown \<Rightarrow> ([], Inl thrown)
      | Inr provider \<Rightarrow>
      (case getMulticallAddress chainId of
        Inl thrown \<Rightarrow> ([], Inl thrown)
      | Inr address \<Rightarrow>
          ([TryAggregateCall provider address requireSuccess calls],
           (case tryAggregate E provider address requireSuccess calls of
              Inl thrown \<Rightarrow> Inl (batch_calls_failure thrown)
            | Inr results \<Rightarrow>
                Inr (map (\<lambda>result. \<lparr>success = fst result, returnData = snd result\<rparr>) results)))))"

section \<open>Notions of the specification\<close>

text \<open>
  The specification speaks of a syntactically valid account identifier (\<open>0x\<close> followed by
  the 40 hexadecimal digits of 20 bytes) and of two spellings of one address that differ in
  letter case only. Neither notion occurs in \<open>MulticallService\<close>; they are defined here to
  state what the specification says.
\<close>

definition isHexDigit :: "char \<Rightarrow> bool" where
  "isHexDigit c = (c \<in> set ''0123456789abcdefABCDEF'')"

definition isHexAddress :: "string \<Rightarrow> bool" where
  "isHexAddress s = (length s = 42 \<and> take 2 s = ''0x'' \<and> list_all isHexDigit (drop 2 s))"

definition lowerChar :: "char \<Rightarrow> char" where
  "lowerChar c =
     (case map_of (zip ''ABCDEFGHIJKLMNOPQRSTUVWXYZ'' ''abcdefghijklmnopqrstuvwxyz'') c of
        None \<Rightarrow> c
      | Some l \<Rightarrow> l)"

definition toLowerCase :: "string \<Rightarrow> string" where
  "toLowerCase s = map lowerChar s"

section \<open>Test doubles\<close>

text \<open>
  A stand-in for the library that answers every \<open>aggregate\<close> call with \<open>aggregated\<close> and
  every \<open>tryAggregate\<close> call with \<open>tried\<close>, whatever the batch; it decodes the two 32-byte
  words below and rejects everything else. The managers are the states after
  \<open>new ProviderManager(url)\<close> for a mainnet and for a Polygon endpoint, after adding a
  Goerli endpoint to the former, and after adding a mainnet endpoint to the latter.
\<close>

definition word_3e8 :: string where
  "word_3e8 = ''0x'' @ replicate 61 CHR ''0'' @ ''3e8''"

definition word_64 :: string where
  "word_64 = ''0x'' @ replicate 62 CHR ''0'' @ ''64''"

definition mock_decode :: "string \<Rightarrow> js_thrown + 256 word" where
  "mock_decode data =
     (if data = word_3e8 then Inr 1000
      else if data = word_64 then Inr 100
      else Inl (JsError ''data out-of-bounds''))"

definition mock_ethers ::
  "(js_thrown + (256 word \<times> string list)) \<Rightarrow> (js_thrown + (bool \<times> string) list) \<Rightarrow> ethers"
where
  "mock_ethers aggregated tried =
     \<lparr>URL_ctor = (\<lambda>url. take 8 url = ''https://''),
      Wallet_ctor = (\<lambda>key. if length key = 66 \<and> take 2 key = ''0x'' then None
                            else Some (JsError ''invalid private key'')),
      encodeFunctionData = (\<lambda>owner. Inr (''0x70a08231'' @ replicate 24 CHR ''0'' @ drop 2 owner)),
      aggregate = (\<lambda>provider address calls. aggregated),
      tryAggregate = (\<lambda>provider address requireSuccess calls. tried),
      decode_uint256 = mock_decode\<rparr>"

definition OWNER :: string where
  "OWNER = ''0x742d35Cc6634C0532925a3b844Bc454e4438f44e''"

definition DAI :: string where
  "DAI = ''0x6B175474E89094C44Da98b954EedeAC495271d0F''"

definition USDC :: string where
  "USDC = ''0xA0b86991c6218b36c1d19D4a2e9Eb0cE3606eB48''"

definition WETH :: string where
  "WETH = ''0xC02aaA39b223FE8D0A0e5C4F27eAD9083C756Cc2''"

definition balanceOf_OWNER :: string where
  "balanceOf_OWNER = ''0x70a08231'' @ replicate 24 CHR ''0'' @ drop 2 OWNER"

definition mainnet_rpc :: JsonRpcProvider where
  "mainnet_rpc = JsonRpcProvider ''https://eth-mainnet.public.blastapi.io''"

definition polygon_rpc :: JsonRpcProvider where
  "polygon_rpc = JsonRpcProvider ''https://polygon-rpc.com''"

definition mainnet_manager :: ProviderManager where
  "mainnet_manager =
     \<lparr>providers = [1 \<mapsto> mainnet_rpc], signers = Map.empty, defaultChainId = 1\<rparr>"

definition goerli_rpc :: JsonRpcProvider where
  "goerli_rpc = JsonRpcProvider ''https://ethereum-goerli.publicnode.com''"

definition goerli_manager :: ProviderManager where
  "goerli_manager =
     \<lparr>providers = [1 \<mapsto> mainnet_rpc, 5 \<mapsto> goerli_rpc], signers = Map.empty, defaultChainId = 1\<rparr>"

definition polygon_manager :: ProviderManager where
  "polygon_manager =
     \<lparr>providers = [137 \<mapsto> polygon_rpc], signers = Map.empty, defaultChainId = 137\<rparr>"

definition polygon_mainnet_manager :: ProviderManager where
  "polygon_mainnet_manager =
     \<lparr>providers = [137 \<mapsto> polygon_rpc, 1 \<mapsto> mainnet_rpc], signers = Map.empty,
      defaultChainId = 137\<rparr>"

section \<open>Auxiliary facts\<close>

lemma map_of_MULTICALL2_ADDRESSES:
  "map_of MULTICALL2_ADDRESSES c =
     (if c = 1 then Some ''0x5BA1e12693Dc8F9c48aAD8770482f4739bEeD696''
      else if c = 137 then Some ''0x275617327c958bD06b5D6b871E7f491D76113dd8''
      else if c = 56 then Some ''0xa9193376D09C7f31283C54e56D013fCF370Cd9D9''
      else if c = 8453 \<or> c = 10 \<or> c = 42161 then Some ''0xcA11bde05977b3631167028862bE2a173976CA11''
      else None)"
  by (simp add: MULTICALL2_ADDRESSES_def)

lemma Number_toString_1: "Number_toString 1 = ''1''"
  by (simp add: Number_toString_def BigInt_toString.simps digit_char_def)

lemma Number_toString_5: "Number_toString 5 = ''5''"
  by (simp add: Number_toString_def BigInt_toString.simps digit_char_def)

lemma getMulticallAddress_mainnet:
  "getMulticallAddress 1 = Inr ''0x5BA1e12693Dc8F9c48aAD8770482f4739bEeD696''"
  by (simp add: getMulticallAddress_def map_of_MULTICALL2_ADDRESSES)

lemma getMulticallAddress_absent:
  "c \<notin> fst ` set MULTICALL2_ADDRESSES \<Longrightarrow>
   getMulticallAddress c =
     Inl (JsError (''Multicall2 address not found for chain ID '' @ Number_toString c))"
  by (simp add: getMulticallAddress_def map_of_eq_None_iff[symmetric] del: map_of_eq_None_iff)

lemma getProvider_mainnet: "getProvider mainnet_manager (Some 1) = Inr mainnet_rpc"
  by (simp add: getProvider_def mainnet_manager_def)

lemma prepare_calls_map:
  "encodeFunctionData E owner = Inr data \<Longrightarrow>
   prepare_calls E owner ts = Inr (map (\<lambda>t. \<lparr>target = t, callData = data\<rparr>) ts)"
  by (induction ts) simp_all

lemma prepare_calls_mock:
  "prepare_calls (mock_ethers aggregated tried) OWNER ts =
     Inr (map (\<lambda>t. \<lparr>target = t, callData = balanceOf_OWNER\<rparr>) ts)"
  by (rule prepare_calls_map) (simp add: mock_ethers_def balanceOf_OWNER_def)

lemma batch_balances_failure_prefix:
  "\<exists>message. batch_balances_failure thrown = JsError (''Failed to get batch balances: '' @ message)"
  by (cases thrown) (simp_all add: batch_balances_failure_def)

text \<open>Once the provider and the contract address are found and the calls are encoded.\<close>

lemma getErc20BatchBalances_sent:
  assumes "getProvider pm (Some (chainId_or_default chainId)) = Inr provider"
    and "getMulticallAddress (chainId_or_default chainId) = Inr address"
    and "prepare_calls E owner tokens = Inr calls"
  shows "getErc20BatchBalances E pm \<lparr>ownerAddress = owner, tokenAddresses = tokens\<rparr> chainId =
           ([AggregateCall provider address calls],
            (case aggregate E provider address calls of
               Inl thrown \<Rightarrow> Inl (batch_balances_failure thrown)
             | Inr (blockNumber, rData) \<Rightarrow>
                 (case process_results E tokens rData 0 [] of
                    Inl thrown \<Rightarrow> Inl (batch_balances_failure thrown)
                  | Inr balances \<Rightarrow> Inr balances)))"
  using assms by (simp add: getErc20BatchBalances_def split: sum.split)

lemma batchCalls_sent:
  assumes "getProvider pm (Some (chainId_or_default chainId)) = Inr provider"
    and "getMulticallAddress (chainId_or_default chainId) = Inr address"
  shows "batchCalls E pm calls chainId requireSuccess =
           ([TryAggregateCall provider address (requireSuccess_or_default requireSuccess) calls],
            (case tryAggregate E provider address (requireSuccess_or_default requireSuccess) calls of
               Inl thrown \<Rightarrow> Inl (batch_calls_failure thrown)
             | Inr results \<Rightarrow>
                 Inr (map (\<lambda>result. \<lparr>success = fst result, returnData = snd result\<rparr>) results)))"
  using assms by (simp add: batchCalls_def Let_def)

subsection \<open>The loop over the response\<close>

text \<open>
  When the response is at least as long as the token list and the entries read decode,
  the loop returns the map built by one \<open>set\<close> per token, in order.
\<close>

lemma process_results_fold:
  assumes "length tokens \<le> length rData"
    and "\<And>j. i \<le> j \<Longrightarrow> j < length tokens \<Longrightarrow> decode_uint256 E (rData ! j) = Inr (ws j)"
  shows "process_results E tokens rData i acc =
         Inr (fold (\<lambda>j. AList.update (tokens ! j) (BigInt_toString (unat (ws j))))
                [i..<length tokens] acc)"
  using assms
proof (induction E tokens rData i acc rule: process_results.induct)
  case (1 E tokens rData i balances)
  show ?case
  proof (cases "i < length tokens")
    case True
    then have r: "Result_index rData i = Inr (rData ! i)"
      using "1.prems"(1) by (simp add: Result_index_def)
    have d: "decode_uint256 E (rData ! i) = Inr (ws i)"
      using "1.prems"(2) True by simp
    have "process_results E tokens rData (Suc i)
            (AList.update (tokens ! i) (BigInt_toString (unat (ws i))) balances) =
          Inr (fold (\<lambda>j. AList.update (tokens ! j) (BigInt_toString (unat (ws j))))
                 [Suc i..<length tokens]
                 (AList.update (tokens ! i) (BigInt_toString (unat (ws i))) balances))"
      using "1.IH"[OF True r d] "1.prems" by simp
    then show ?thesis
      using True r d by (simp add: process_results.simps[of E tokens rData i] upt_conv_Cons)
  next
    case False
    then show ?thesis by (simp add: process_results.simps[of E tokens rData i])
  qed
qed

text \<open>A response shorter than the token list makes the loop throw.\<close>

lemma process_results_short:
  assumes "length rData < length tokens" and "i \<le> length rData"
  shows "\<exists>thrown. process_results E tokens rData i acc = Inl thrown"
  using assms
proof (induction E tokens rData i acc rule: process_results.induct)
  case (1 E tokens rData i balances)
  have lt: "i < length tokens" using "1.prems" by simp
  show ?case
  proof (cases "Result_index rData i")
    case (Inl thrown)
    then show ?thesis using lt by (simp add: process_results.simps[of E tokens rData i])
  next
    case (Inr bytes)
    then have i: "Suc i \<le> length rData"
      by (simp add: Result_index_def split: if_splits)
    show ?thesis
    proof (cases "decode_uint256 E bytes")
      case (Inl thrown)
      then show ?thesis using lt Inr by (simp add: process_results.simps[of E tokens rData i])
    next
      case (Inr balance)
      from "1.IH"[OF lt \<open>Result_index rData i = Inr bytes\<close> Inr "1.prems"(1) i]
      show ?thesis
        using lt Inr \<open>Result_index rData i = Inr bytes\<close>
        by (simp add: process_results.simps[of E tokens rData i])
    qed
  qed
qed

lemma map_of_fold_update_other:
  "k \<notin> f ` set js \<Longrightarrow> map_of (fold (\<lambda>j. AList.update (f j) (g j)) js acc) k = map_of acc k"
  by (induction js arbitrary: acc) (simp_all add: update_conv')

lemma keys_fold_update:
  "fst ` set (fold (\<lambda>j. AList.update (f j) (g j)) js acc) = f ` set js \<union> fst ` set acc"
  by (induction js arbitrary: acc) (auto simp add: dom_update)

text \<open>The value under a key is the one set at its last position.\<close>

lemma map_of_fold_update_last:
  assumes "i < n" and "\<And>j. i < j \<Longrightarrow> j < n \<Longrightarrow> f j \<noteq> f i"
  shows "map_of (fold (\<lambda>j. AList.update (f j) (g j)) [0..<n] []) (f i) = Some (g i)"
proof -
  have "[0..<i + (n - i)] = [0..<i] @ [i..<i + (n - i)]"
    by (rule upt_add_eq_append) simp
  then have split: "[0..<n] = [0..<i] @ i # [Suc i..<n]"
    using assms(1) by (simp add: upt_conv_Cons)
  have notin: "f i \<notin> f ` set [Suc i..<n]"
  proof -
    have "\<forall>j\<in>set [Suc i..<n]. f j \<noteq> f i"
      using assms(2) by simp
    then show ?thesis by force
  qed
  show ?thesis
    by (simp add: split map_of_fold_update_other[OF notin] update_conv' del: upt.simps)
qed

text \<open>The two together: what the loop returns on a response that covers the token list.\<close>

lemma process_results_covering:
  assumes "length tokens \<le> length rData"
    and "map (decode_uint256 E) (take (length tokens) rData) = map Inr balances"
  shows "\<exists>out. process_results E tokens rData 0 [] = Inr out \<and>
           fst ` set out = set tokens \<and>
           (\<forall>i<length tokens. (\<forall>j. i < j \<and> j < length tokens \<longrightarrow> tokens ! j \<noteq> tokens ! i) \<longrightarrow>
              map_of out (tokens ! i) = Some (BigInt_toString (unat (balances ! i))))"
proof -
  have len: "length balances = length tokens"
    using assms by (metis length_map length_take min.absorb2)
  have dec: "decode_uint256 E (rData ! j) = Inr (balances ! j)" if "j < length tokens" for j
  proof -
    have "map (decode_uint256 E) (take (length tokens) rData) ! j = map Inr balances ! j"
      using assms(2) by simp
    then show ?thesis using that assms(1) len by simp
  qed
  let ?out = "fold (\<lambda>j. AList.update (tokens ! j) (BigInt_toString (unat (balances ! j))))
                [0..<length tokens] []"
  have run: "process_results E tokens rData 0 [] = Inr ?out"
    by (rule process_results_fold[OF assms(1)]) (simp add: dec)
  have keys: "fst ` set ?out = set tokens"
    by (simp add: keys_fold_update del: upt.simps) (simp add: set_conv_nth image_def Bex_def conj_commute)
  have vals: "map_of ?out (tokens ! i) = Some (BigInt_toString (unat (balances ! i)))"
    if "i < length tokens" "\<forall>j. i < j \<and> j < length tokens \<longrightarrow> tokens ! j \<noteq> tokens ! i" for i
    using that by (intro map_of_fold_update_last) auto
  show ?thesis
    using run keys vals by blast
qed

section \<open>Order of the results\<close>

text \<open>
  C1, as the code has it. When the response has one entry per token and every entry decodes,
  \<open>getErc20BatchBalances\<close> returns a map over exactly the token addresses, and the i-th
  token address is mapped to the decimal string of the value decoded from the i-th entry
  whenever the same address string does not occur again at a later position (a later
  occurrence overwrites the entry). \<open>batchCalls\<close> returns one \<open>CallResult\<close> per tuple of the
  response, in the order of the response, with the tuple's two components.
\<close>

theorem batch_results_positional:
  assumes "getProvider pm (Some (chainId_or_default chainId)) = Inr provider"
    and "getMulticallAddress (chainId_or_default chainId) = Inr address"
  shows "(prepare_calls E owner tokens = Inr calls \<and>
          aggregate E provider address calls = Inr (blockNumber, rData) \<and>
          length rData = length tokens \<and>
          map (decode_uint256 E) rData = map Inr balances \<longrightarrow>
          (\<exists>out. snd (getErc20BatchBalances E pm \<lparr>ownerAddress = owner, tokenAddresses = tokens\<rparr> chainId)
                  = Inr out \<and>
            fst ` set out = set tokens \<and>
            (\<forall>i<length tokens.
               (\<forall>j. i < j \<and> j < length tokens \<longrightarrow> tokens ! j \<noteq> tokens ! i) \<longrightarrow>
               map_of out (tokens ! i) = Some (BigInt_toString (unat (balances ! i)))))) \<and>
         (tryAggregate E provider address (requireSuccess_or_default requireSuccess) calls' = Inr results \<longrightarrow>
          (\<exists>out'. snd (batchCalls E pm calls' chainId requireSuccess) = Inr out' \<and>
            length out' = length results \<and>
            (\<forall>i<length results.
               out' ! i = \<lparr>success = fst (results ! i), returnData = snd (results ! i)\<rparr>)))"
proof (intro conjI impI)
  assume h: "prepare_calls E owner tokens = Inr calls \<and>
          aggregate E provider address calls = Inr (blockNumber, rData) \<and>
          length rData = length tokens \<and>
          map (decode_uint256 E) rData = map Inr balances"
  then have "\<exists>out. process_results E tokens rData 0 [] = Inr out \<and>
           fst ` set out = set tokens \<and>
           (\<forall>i<length tokens. (\<forall>j. i < j \<and> j < length tokens \<longrightarrow> tokens ! j \<noteq> tokens ! i) \<longrightarrow>
              map_of out (tokens ! i) = Some (BigInt_toString (unat (balances ! i))))"
    by (intro process_results_covering) simp_all
  then show "\<exists>out. snd (getErc20BatchBalances E pm \<lparr>ownerAddress = owner, tokenAddresses = tokens\<rparr> chainId)
                  = Inr out \<and>
            fst ` set out = set tokens \<and>
            (\<forall>i<length tokens.
               (\<forall>j. i < j \<and> j < length tokens \<longrightarrow> tokens ! j \<noteq> tokens ! i) \<longrightarrow>
               map_of out (tokens ! i) = Some (BigInt_toString (unat (balances ! i))))"
    using h assms by (auto simp add: getErc20BatchBalances_sent [where calls = calls])
next
  assume "tryAggregate E provider address (requireSuccess_or_default requireSuccess) calls' = Inr results"
  then show "\<exists>out'. snd (batchCalls E pm calls' chainId requireSuccess) = Inr out' \<and>
            length out' = length results \<and>
            (\<forall>i<length results.
               out' ! i = \<lparr>success = fst (results ! i), returnData = snd (results ! i)\<rparr>)"
    using assms by (simp add: batchCalls_sent)
qed

theorem batch_results_positional_witness:
  "(\<exists>out. snd (getErc20BatchBalances (mock_ethers (Inr (0, [word_3e8, word_64, word_3e8])) (Inr [(True, word_64), (True, word_3e8)]))
              mainnet_manager \<lparr>ownerAddress = OWNER, tokenAddresses = [DAI, USDC, WETH]\<rparr> (Some 1)) = Inr out \<and>
      map_of out DAI = Some ''1000'' \<and> map_of out USDC = Some ''100'' \<and> map_of out WETH = Some ''1000'') \<and>
   (\<exists>out'. snd (batchCalls (mock_ethers (Inr (0, [word_3e8, word_64, word_3e8])) (Inr [(True, word_64), (True, word_3e8)]))
              mainnet_manager [\<lparr>target = USDC, callData = balanceOf_OWNER\<rparr>, \<lparr>target = DAI, callData = balanceOf_OWNER\<rparr>]
              (Some 1) None) = Inr out' \<and>
      out' ! 0 = \<lparr>success = True, returnData = word_64\<rparr> \<and>
      out' ! 1 = \<lparr>success = True, returnData = word_3e8\<rparr>)"
proof -
  let ?E = "mock_ethers (Inr (0, [word_3e8, word_64, word_3e8])) (Inr [(True, word_64), (True, word_3e8)])"
  let ?calls = "[\<lparr>target = DAI, callData = balanceOf_OWNER\<rparr>, \<lparr>target = USDC, callData = balanceOf_OWNER\<rparr>,
                 \<lparr>target = WETH, callData = balanceOf_OWNER\<rparr>]"
  let ?calls' = "[\<lparr>target = USDC, callData = balanceOf_OWNER\<rparr>, \<lparr>target = DAI, callData = balanceOf_OWNER\<rparr>]"
  have p: "getProvider mainnet_manager (Some (chainId_or_default (Some 1))) = Inr mainnet_rpc"
    by (simp add: chainId_or_default_def getProvider_mainnet)
  have a: "getMulticallAddress (chainId_or_default (Some 1)) = Inr ''0x5BA1e12693Dc8F9c48aAD8770482f4739bEeD696''"
    by (simp add: chainId_or_default_def getMulticallAddress_mainnet)
  have c: "prepare_calls ?E OWNER [DAI, USDC, WETH] = Inr ?calls"
    using prepare_calls_mock [of _ _ "[DAI, USDC, WETH]"] by simp
  have r: "aggregate ?E mainnet_rpc ''0x5BA1e12693Dc8F9c48aAD8770482f4739bEeD696'' ?calls =
           Inr (0, [word_3e8, word_64, word_3e8])"
    by (simp add: mock_ethers_def)
  have n: "length [word_3e8, word_64, word_3e8] = length [DAI, USDC, WETH]"
    by simp
  have d: "map (decode_uint256 ?E) [word_3e8, word_64, word_3e8] = map Inr [1000, 100, 1000]"
    by (simp add: mock_ethers_def mock_decode_def word_3e8_def word_64_def)
  have t: "tryAggregate ?E mainnet_rpc ''0x5BA1e12693Dc8F9c48aAD8770482f4739bEeD696''
             (requireSuccess_or_default None) ?calls' = Inr [(True, word_64), (True, word_3e8)]"
    by (simp add: mock_ethers_def)
  have distinct: "DAI \<noteq> USDC" "DAI \<noteq> WETH" "USDC \<noteq> WETH"
    by (simp_all add: DAI_def USDC_def WETH_def)
  have str: "BigInt_toString (unat (1000 :: 256 word)) = ''1000''"
            "BigInt_toString (unat (100 :: 256 word)) = ''100''"
    by (simp_all add: BigInt_toString.simps digit_char_def)
  note inst = batch_results_positional [OF p a, where E = ?E and owner = OWNER
      and tokens = "[DAI, USDC, WETH]" and calls = ?calls and blockNumber = 0
      and rData = "[word_3e8, word_64, word_3e8]" and balances = "[1000, 100, 1000]"
      and requireSuccess = None and calls' = ?calls' and results = "[(True, word_64), (True, word_3e8)]"]
  from inst c r n d obtain out where out:
    "snd (getErc20BatchBalances ?E mainnet_manager
            \<lparr>ownerAddress = OWNER, tokenAddresses = [DAI, USDC, WETH]\<rparr> (Some 1)) = Inr out"
    "\<forall>i<length [DAI, USDC, WETH].
        (\<forall>j. i < j \<and> j < length [DAI, USDC, WETH] \<longrightarrow> [DAI, USDC, WETH] ! j \<noteq> [DAI, USDC, WETH] ! i) \<longrightarrow>
        map_of out ([DAI, USDC, WETH] ! i) = Some (BigInt_toString (unat ([1000, 100, 1000 :: 256 word] ! i)))"
    by blast
  have later: "\<forall>j. i < j \<and> j < length [DAI, USDC, WETH] \<longrightarrow> [DAI, USDC, WETH] ! j \<noteq> [DAI, USDC, WETH] ! i"
    if "i < 3" for i
  proof (intro allI impI)
    fix j assume "i < j \<and> j < length [DAI, USDC, WETH]"
    then have "(i = 0 \<and> j = 1) \<or> (i = 0 \<and> j = 2) \<or> (i = 1 \<and> j = 2)" by auto
    then show "[DAI, USDC, WETH] ! j \<noteq> [DAI, USDC, WETH] ! i"
      using distinct by auto
  qed
  have entry: "map_of out ([DAI, USDC, WETH] ! i) =
                 Some (BigInt_toString (unat ([1000, 100, 1000 :: 256 word] ! i)))" if "i < 3" for i
  proof -
    have "i < length [DAI, USDC, WETH]" using that by simp
    with out(2) later [OF that] show ?thesis by blast
  qed
  have "map_of out DAI = Some ''1000''"
    using entry [of 0] str by simp
  moreover have "map_of out USDC = Some ''100''"
    using entry [of 1] str by simp
  moreover have "map_of out WETH = Some ''1000''"
    using entry [of 2] str by simp
  moreover from inst t obtain out' where out':
    "snd (batchCalls ?E mainnet_manager ?calls' (Some 1) None) = Inr out'"
    "\<forall>i<length [(True, word_64), (True, word_3e8)].
        out' ! i = \<lparr>success = fst ([(True, word_64), (True, word_3e8)] ! i),
                    returnData = snd ([(True, word_64), (True, word_3e8)] ! i)\<rparr>"
    by blast
  have "out' ! 0 = \<lparr>success = True, returnData = word_64\<rparr>"
    using out'(2) [rule_format, of 0] by simp
  moreover have "out' ! 1 = \<lparr>success = True, returnData = word_3e8\<rparr>"
    using out'(2) [rule_format, of 1] by simp
  ultimately show ?thesis
    using out(1) out'(1) by blast
qed

theorem batch_results_positional_counterexample:
  "snd (getErc20BatchBalances (mock_ethers (Inr (0, [word_3e8, word_64])) (Inr []))
          mainnet_manager \<lparr>ownerAddress = OWNER, tokenAddresses = [DAI, DAI]\<rparr> (Some 1)) =
     Inr [(DAI, ''100'')] \<and>
   decode_uint256 (mock_ethers (Inr (0, [word_3e8, word_64])) (Inr [])) ([word_3e8, word_64] ! 0) = Inr 1000 \<and>
   BigInt_toString (unat (1000 :: 256 word)) = ''1000''"
  by (simp add: getErc20BatchBalances_def chainId_or_default_def getProvider_mainnet
        getMulticallAddress_mainnet mock_ethers_def process_results.simps Result_index_def
        mock_decode_def word_3e8_def word_64_def BigInt_toString.simps digit_char_def)

section \<open>Keys of the balance map\<close>

text \<open>
  C2, as the code has it. For two token addresses the batch handed to the contract has two
  calls, and the map is keyed by the address strings as given: it has one entry, holding
  the later value, only when the two strings are identical; two spellings that differ in
  any character, letter case included, are two keys with one entry each.
\<close>

theorem token_keys_are_exact_strings:
  assumes "getProvider pm (Some (chainId_or_default chainId)) = Inr provider"
    and "getMulticallAddress (chainId_or_default chainId) = Inr address"
    and "encodeFunctionData E owner = Inr data"
    and "aggregate E provider address
           [\<lparr>target = t1, callData = data\<rparr>, \<lparr>target = t2, callData = data\<rparr>] =
         Inr (blockNumber, [r1, r2])"
    and "decode_uint256 E r1 = Inr b1"
    and "decode_uint256 E r2 = Inr b2"
  shows "getErc20BatchBalances E pm \<lparr>ownerAddress = owner, tokenAddresses = [t1, t2]\<rparr> chainId =
           ([AggregateCall provider address
               [\<lparr>target = t1, callData = data\<rparr>, \<lparr>target = t2, callData = data\<rparr>]],
            Inr (if t1 = t2 then [(t1, BigInt_toString (unat b2))]
                 else [(t1, BigInt_toString (unat b1)), (t2, BigInt_toString (unat b2))]))"
proof -
  have loop: "process_results E [t1, t2] [r1, r2] 0 [] =
                Inr (if t1 = t2 then [(t1, BigInt_toString (unat b2))]
                     else [(t1, BigInt_toString (unat b1)), (t2, BigInt_toString (unat b2))])"
    using assms(5,6) by (simp add: process_results.simps Result_index_def)
  have calls: "prepare_calls E owner [t1, t2] =
                 Inr [\<lparr>target = t1, callData = data\<rparr>, \<lparr>target = t2, callData = data\<rparr>]"
    by (simp add: assms(3))
  show ?thesis
    by (simp only: getErc20BatchBalances_sent [OF assms(1,2) calls] assms(4) loop sum.case prod.case)
qed

theorem token_keys_are_exact_strings_witness:
  "toLowerCase USDC \<noteq> USDC \<and> toLowerCase (toLowerCase USDC) = toLowerCase USDC \<and>
   getErc20BatchBalances (mock_ethers (Inr (0, [word_64, word_3e8])) (Inr []))
     mainnet_manager \<lparr>ownerAddress = OWNER, tokenAddresses = [USDC, toLowerCase USDC]\<rparr> None =
     ([AggregateCall mainnet_rpc ''0x5BA1e12693Dc8F9c48aAD8770482f4739bEeD696''
         [\<lparr>target = USDC, callData = balanceOf_OWNER\<rparr>,
          \<lparr>target = toLowerCase USDC, callData = balanceOf_OWNER\<rparr>]],
      Inr [(USDC, ''100''), (toLowerCase USDC, ''1000'')]) \<and>
   getErc20BatchBalances (mock_ethers (Inr (0, [word_64, word_3e8])) (Inr []))
     mainnet_manager \<lparr>ownerAddress = OWNER, tokenAddresses = [USDC, USDC]\<rparr> None =
     ([AggregateCall mainnet_rpc ''0x5BA1e12693Dc8F9c48aAD8770482f4739bEeD696''
         [\<lparr>target = USDC, callData = balanceOf_OWNER\<rparr>, \<lparr>target = USDC, callData = balanceOf_OWNER\<rparr>]],
      Inr [(USDC, ''1000'')])"
proof -
  let ?E = "mock_ethers (Inr (0, [word_64, word_3e8])) (Inr [])"
  have p: "getProvider mainnet_manager (Some (chainId_or_default None)) = Inr mainnet_rpc"
    by (simp add: chainId_or_default_def getProvider_mainnet)
  have a: "getMulticallAddress (chainId_or_default None) = Inr ''0x5BA1e12693Dc8F9c48aAD8770482f4739bEeD696''"
    by (simp add: chainId_or_default_def getMulticallAddress_mainnet)
  have e: "encodeFunctionData ?E OWNER = Inr balanceOf_OWNER"
    by (simp add: mock_ethers_def balanceOf_OWNER_def)
  have r: "aggregate ?E mainnet_rpc ''0x5BA1e12693Dc8F9c48aAD8770482f4739bEeD696''
             [\<lparr>target = t1, callData = balanceOf_OWNER\<rparr>, \<lparr>target = t2, callData = balanceOf_OWNER\<rparr>] =
           Inr (0, [word_64, word_3e8])" for t1 t2
    by (simp add: mock_ethers_def)
  have d1: "decode_uint256 ?E word_64 = Inr 100"
    by (simp add: mock_ethers_def mock_decode_def word_3e8_def word_64_def)
  have d2: "decode_uint256 ?E word_3e8 = Inr 1000"
    by (simp add: mock_ethers_def mock_decode_def)
  have str: "BigInt_toString (unat (1000 :: 256 word)) = ''1000''"
            "BigInt_toString (unat (100 :: 256 word)) = ''100''"
    by (simp_all add: BigInt_toString.simps digit_char_def)
  have low: "toLowerCase USDC \<noteq> USDC" "toLowerCase (toLowerCase USDC) = toLowerCase USDC"
    by (simp_all add: toLowerCase_def USDC_def lowerChar_def)
  have "USDC \<noteq> toLowerCase USDC"
    using low(1) by simp
  then show ?thesis
    using low str
      token_keys_are_exact_strings [OF p a e r d1 d2, of USDC "toLowerCase USDC"]
      token_keys_are_exact_strings [OF p a e r d1 d2, of USDC USDC]
    by simp
qed

theorem case_variants_counterexample:
  "toLowerCase DAI \<noteq> DAI \<and> toLowerCase (toLowerCase DAI) = toLowerCase DAI \<and>
   snd (getErc20BatchBalances (mock_ethers (Inr (0, [word_3e8, word_64])) (Inr []))
          mainnet_manager \<lparr>ownerAddress = OWNER, tokenAddresses = [DAI, toLowerCase DAI]\<rparr> (Some 1)) =
     Inr [(DAI, ''1000''), (toLowerCase DAI, ''100'')] \<and>
   length [(DAI, ''1000''), (toLowerCase DAI, ''100'')] = 2"
  by (simp add: getErc20BatchBalances_def chainId_or_default_def getProvider_mainnet
        getMulticallAddress_mainnet mock_ethers_def process_results.simps Result_index_def
        mock_decode_def word_3e8_def word_64_def BigInt_toString.simps digit_char_def
        toLowerCase_def DAI_def lowerChar_def)

section \<open>Length of the response\<close>

text \<open>
  C3, as the code has it. Neither operation compares the length of the response with the
  length of the request. \<open>getErc20BatchBalances\<close> reads one entry per token: a response with
  fewer entries than tokens makes it throw an error whose message starts with
  \<open>Failed to get batch balances: \<close>; of a response with more entries than tokens it reads
  the first entries only, and when these decode it returns the map over the token addresses
  built from them, the surplus being ignored. \<open>batchCalls\<close> returns one \<open>CallResult\<close> per
  tuple of the response, however many calls were sent.
\<close>

theorem response_length_unchecked:
  assumes "getProvider pm (Some (chainId_or_default chainId)) = Inr provider"
    and "getMulticallAddress (chainId_or_default chainId) = Inr address"
  shows "(prepare_calls E owner tokens = Inr calls \<and>
          aggregate E provider address calls = Inr (blockNumber, rData) \<and>
          length rData < length tokens \<longrightarrow>
          (\<exists>message. snd (getErc20BatchBalances E pm \<lparr>ownerAddress = owner, tokenAddresses = tokens\<rparr> chainId) =
              Inl (JsError (''Failed to get batch balances: '' @ message)))) \<and>
         (prepare_calls E owner tokens = Inr calls \<and>
          aggregate E provider address calls = Inr (blockNumber, rData) \<and>
          length tokens < length rData \<and>
          map (decode_uint256 E) (take (length tokens) rData) = map Inr balances \<longrightarrow>
          (\<exists>out. snd (getErc20BatchBalances E pm \<lparr>ownerAddress = owner, tokenAddresses = tokens\<rparr> chainId) =
              Inr out \<and>
            fst ` set out = set tokens \<and>
            (\<forall>i<length tokens.
               (\<forall>j. i < j \<and> j < length tokens \<longrightarrow> tokens ! j \<noteq> tokens ! i) \<longrightarrow>
               map_of out (tokens ! i) = Some (BigInt_toString (unat (balances ! i)))))) \<and>
         (tryAggregate E provider address (requireSuccess_or_default requireSuccess) calls' = Inr results \<longrightarrow>
          snd (batchCalls E pm calls' chainId requireSuccess) =
            Inr (map (\<lambda>result. \<lparr>success = fst result, returnData = snd result\<rparr>) results))"
proof (intro conjI impI)
  assume h: "prepare_calls E owner tokens = Inr calls \<and>
             aggregate E provider address calls = Inr (blockNumber, rData) \<and>
             length rData < length tokens"
  then obtain thrown where "process_results E tokens rData 0 [] = Inl thrown"
    using process_results_short [of rData tokens 0 E "[]"] by auto
  moreover obtain message where
    "batch_balances_failure thrown = JsError (''Failed to get batch balances: '' @ message)"
    using batch_balances_failure_prefix by blast
  ultimately show "\<exists>message. snd (getErc20BatchBalances E pm \<lparr>ownerAddress = owner, tokenAddresses = tokens\<rparr> chainId) =
              Inl (JsError (''Failed to get batch balances: '' @ message))"
    using h assms by (simp add: getErc20BatchBalances_sent [where calls = calls])
next
  assume h: "prepare_calls E owner tokens = Inr calls \<and>
             aggregate E provider address calls = Inr (blockNumber, rData) \<and>
             length tokens < length rData \<and>
             map (decode_uint256 E) (take (length tokens) rData) = map Inr balances"
  then have "\<exists>out. process_results E tokens rData 0 [] = Inr out \<and>
           fst ` set out = set tokens \<and>
           (\<forall>i<length tokens. (\<forall>j. i < j \<and> j < length tokens \<longrightarrow> tokens ! j \<noteq> tokens ! i) \<longrightarrow>
              map_of out (tokens ! i) = Some (BigInt_toString (unat (balances ! i))))"
    by (intro process_results_covering) simp_all
  then show "\<exists>out. snd (getErc20BatchBalances E pm \<lparr>ownerAddress = owner, tokenAddresses = tokens\<rparr> chainId) =
              Inr out \<and>
            fst ` set out = set tokens \<and>
            (\<forall>i<length tokens.
               (\<forall>j. i < j \<and> j < length tokens \<longrightarrow> tokens ! j \<noteq> tokens ! i) \<longrightarrow>
               map_of out (tokens ! i) = Some (BigInt_toString (unat (balances ! i))))"
    using h assms by (auto simp add: getErc20BatchBalances_sent [where calls = calls])
next
  assume "tryAggregate E provider address (requireSuccess_or_default requireSuccess) calls' = Inr results"
  then show "snd (batchCalls E pm calls' chainId requireSuccess) =
            Inr (map (\<lambda>result. \<lparr>success = fst result, returnData = snd result\<rparr>) results)"
    using assms by (simp add: batchCalls_sent)
qed

theorem response_length_unchecked_witness:
  "(\<exists>message. snd (getErc20BatchBalances (mock_ethers (Inr (0, [word_3e8])) (Inr [(True, word_64)]))
       mainnet_manager \<lparr>ownerAddress = OWNER, tokenAddresses = [DAI, USDC]\<rparr> (Some 1)) =
       Inl (JsError (''Failed to get batch balances: '' @ message))) \<and>
   (\<exists>out. snd (getErc20BatchBalances (mock_ethers (Inr (0, [word_3e8, word_64, word_64])) (Inr []))
       mainnet_manager \<lparr>ownerAddress = OWNER, tokenAddresses = [DAI, USDC]\<rparr> (Some 1)) = Inr out \<and>
       fst ` set out = {DAI, USDC} \<and> map_of out USDC = Some ''100'') \<and>
   snd (batchCalls (mock_ethers (Inr (0, [word_3e8])) (Inr [(True, word_64)])) mainnet_manager
          [\<lparr>target = DAI, callData = balanceOf_OWNER\<rparr>, \<lparr>target = USDC, callData = balanceOf_OWNER\<rparr>]
          (Some 1) None) = Inr [\<lparr>success = True, returnData = word_64\<rparr>]"
proof -
  let ?short = "mock_ethers (Inr (0, [word_3e8])) (Inr [(True, word_64)])"
  let ?long = "mock_ethers (Inr (0, [word_3e8, word_64, word_64])) (Inr [])"
  let ?calls = "[\<lparr>target = DAI, callData = balanceOf_OWNER\<rparr>, \<lparr>target = USDC, callData = balanceOf_OWNER\<rparr>]"
  have p: "getProvider mainnet_manager (Some (chainId_or_default (Some 1))) = Inr mainnet_rpc"
    by (simp add: chainId_or_default_def getProvider_mainnet)
  have a: "getMulticallAddress (chainId_or_default (Some 1)) = Inr ''0x5BA1e12693Dc8F9c48aAD8770482f4739bEeD696''"
    by (simp add: chainId_or_default_def getMulticallAddress_mainnet)
  have c: "prepare_calls (mock_ethers aggregated tried) OWNER [DAI, USDC] = Inr ?calls" for aggregated tried
    using prepare_calls_mock [of aggregated tried "[DAI, USDC]"] by simp
  have short: "aggregate ?short mainnet_rpc ''0x5BA1e12693Dc8F9c48aAD8770482f4739bEeD696'' ?calls =
                 Inr (0, [word_3e8])" "length [word_3e8] < length [DAI, USDC]"
    by (simp_all add: mock_ethers_def)
  have long: "aggregate ?long mainnet_rpc ''0x5BA1e12693Dc8F9c48aAD8770482f4739bEeD696'' ?calls =
                Inr (0, [word_3e8, word_64, word_64])"
             "length [DAI, USDC] < length [word_3e8, word_64, word_64]"
             "map (decode_uint256 ?long) (take (length [DAI, USDC]) [word_3e8, word_64, word_64]) =
                map Inr [1000, 100]"
    by (simp_all add: mock_ethers_def mock_decode_def word_3e8_def word_64_def)
  have tried: "tryAggregate ?short mainnet_rpc ''0x5BA1e12693Dc8F9c48aAD8770482f4739bEeD696''
                 (requireSuccess_or_default None) ?calls = Inr [(True, word_64)]"
    by (simp add: mock_ethers_def)
  have str: "BigInt_toString (unat (100 :: 256 word)) = ''100''"
    by (simp add: BigInt_toString.simps digit_char_def)
  note inst_short = response_length_unchecked [OF p a, where E = ?short and owner = OWNER
      and tokens = "[DAI, USDC]" and calls = ?calls and blockNumber = 0 and rData = "[word_3e8]"
      and requireSuccess = None and calls' = ?calls and results = "[(True, word_64)]"]
  note inst_long = response_length_unchecked [OF p a, where E = ?long and owner = OWNER
      and tokens = "[DAI, USDC]" and calls = ?calls and blockNumber = 0
      and rData = "[word_3e8, word_64, word_64]" and balances = "[1000, 100]"]
  have first: "\<exists>message. snd (getErc20BatchBalances ?short mainnet_manager
       \<lparr>ownerAddress = OWNER, tokenAddresses = [DAI, USDC]\<rparr> (Some 1)) =
       Inl (JsError (''Failed to get batch balances: '' @ message))"
    using inst_short c short by blast
  from inst_long c long obtain out where out:
    "snd (getErc20BatchBalances ?long mainnet_manager
       \<lparr>ownerAddress = OWNER, tokenAddresses = [DAI, USDC]\<rparr> (Some 1)) = Inr out"
    "fst ` set out = set [DAI, USDC]"
    "\<forall>i<length [DAI, USDC].
        (\<forall>j. i < j \<and> j < length [DAI, USDC] \<longrightarrow> [DAI, USDC] ! j \<noteq> [DAI, USDC] ! i) \<longrightarrow>
        map_of out ([DAI, USDC] ! i) = Some (BigInt_toString (unat ([1000, 100 :: 256 word] ! i)))"
    by blast
  have i1: "1 < length [DAI, USDC]"
    by simp
  have l1: "\<forall>j. 1 < j \<and> j < length [DAI, USDC] \<longrightarrow> [DAI, USDC] ! j \<noteq> [DAI, USDC] ! 1"
    by simp
  from out(3) i1 l1 have "map_of out ([DAI, USDC] ! 1) =
      Some (BigInt_toString (unat ([1000, 100 :: 256 word] ! 1)))"
    by blast
  then have "map_of out USDC = Some ''100''"
    using str by simp
  then have second: "\<exists>out. snd (getErc20BatchBalances ?long mainnet_manager
       \<lparr>ownerAddress = OWNER, tokenAddresses = [DAI, USDC]\<rparr> (Some 1)) = Inr out \<and>
       fst ` set out = {DAI, USDC} \<and> map_of out USDC = Some ''100''"
    using out(1,2) by auto
  have third: "snd (batchCalls ?short mainnet_manager ?calls (Some 1) None) =
                 Inr [\<lparr>success = True, returnData = word_64\<rparr>]"
    using inst_short tried by simp
  from first second third show ?thesis by blast
qed

theorem response_length_counterexample:
  "snd (getErc20BatchBalances (mock_ethers (Inr (0, [word_3e8, word_64])) (Inr [(True, word_64)]))
          mainnet_manager \<lparr>ownerAddress = OWNER, tokenAddresses = [DAI]\<rparr> (Some 1)) =
     Inr [(DAI, ''1000'')] \<and>
   snd (batchCalls (mock_ethers (Inr (0, [word_3e8, word_64])) (Inr [(True, word_64)])) mainnet_manager
          [\<lparr>target = DAI, callData = balanceOf_OWNER\<rparr>, \<lparr>target = USDC, callData = balanceOf_OWNER\<rparr>]
          (Some 1) None) = Inr [\<lparr>success = True, returnData = word_64\<rparr>]"
  by (simp add: getErc20BatchBalances_def batchCalls_def chainId_or_default_def
        requireSuccess_or_default_def getProvider_mainnet
        getMulticallAddress_mainnet mock_ethers_def process_results.simps Result_index_def
        mock_decode_def word_3e8_def word_64_def BigInt_toString.simps digit_char_def)

section \<open>Targets of the batch\<close>

text \<open>
  C4, as the code has it. The service does not examine the target addresses. Once the
  provider and the contract address are found (and, for balances, the owner is encoded),
  every batch is handed to the contract object's \<open>aggregate\<close> or \<open>tryAggregate\<close> with its
  targets unchanged and in order, whether or not they are well-formed addresses; when that
  call rejects the batch with an error, the operation throws it wrapped as
  \<open>Failed to get batch balances: <cause>\<close> or \<open>Failed to batch calls: <cause>\<close>.
\<close>

theorem targets_passed_unchecked:
  assumes "getProvider pm (Some (chainId_or_default chainId)) = Inr provider"
    and "getMulticallAddress (chainId_or_default chainId) = Inr address"
  shows "(encodeFunctionData E owner = Inr data \<longrightarrow>
          fst (getErc20BatchBalances E pm \<lparr>ownerAddress = owner, tokenAddresses = tokens\<rparr> chainId) =
            [AggregateCall provider address (map (\<lambda>t. \<lparr>target = t, callData = data\<rparr>) tokens)]) \<and>
         (encodeFunctionData E owner = Inr data \<and>
          aggregate E provider address (map (\<lambda>t. \<lparr>target = t, callData = data\<rparr>) tokens) =
            Inl (JsError cause) \<longrightarrow>
          snd (getErc20BatchBalances E pm \<lparr>ownerAddress = owner, tokenAddresses = tokens\<rparr> chainId) =
            Inl (JsError (''Failed to get batch balances: '' @ cause))) \<and>
         fst (batchCalls E pm calls chainId requireSuccess) =
           [TryAggregateCall provider address (requireSuccess_or_default requireSuccess) calls] \<and>
         (tryAggregate E provider address (requireSuccess_or_default requireSuccess) calls =
            Inl (JsError cause') \<longrightarrow>
          snd (batchCalls E pm calls chainId requireSuccess) =
            Inl (JsError (''Failed to batch calls: '' @ cause')))"
  using assms
  by (simp add: getErc20BatchBalances_sent [OF _ _ prepare_calls_map] batchCalls_sent
        batch_balances_failure_def batch_calls_failure_def)

theorem targets_passed_unchecked_witness:
  "\<not> isHexAddress ''not-an-address'' \<and>
   getErc20BatchBalances (mock_ethers (Inl (JsError ''invalid address'')) (Inl (JsError ''invalid address'')))
     mainnet_manager \<lparr>ownerAddress = OWNER, tokenAddresses = [DAI, ''not-an-address'']\<rparr> (Some 1) =
     ([AggregateCall mainnet_rpc ''0x5BA1e12693Dc8F9c48aAD8770482f4739bEeD696''
         [\<lparr>target = DAI, callData = balanceOf_OWNER\<rparr>,
          \<lparr>target = ''not-an-address'', callData = balanceOf_OWNER\<rparr>]],
      Inl (JsError ''Failed to get batch balances: invalid address'')) \<and>
   batchCalls (mock_ethers (Inl (JsError ''invalid address'')) (Inl (JsError ''invalid address'')))
     mainnet_manager [\<lparr>target = ''not-an-address'', callData = balanceOf_OWNER\<rparr>] (Some 1) (Some True) =
     ([TryAggregateCall mainnet_rpc ''0x5BA1e12693Dc8F9c48aAD8770482f4739bEeD696'' True
         [\<lparr>target = ''not-an-address'', callData = balanceOf_OWNER\<rparr>]],
      Inl (JsError ''Failed to batch calls: invalid address''))"
proof -
  let ?E = "mock_ethers (Inl (JsError ''invalid address'')) (Inl (JsError ''invalid address''))"
  have p: "getProvider mainnet_manager (Some (chainId_or_default (Some 1))) = Inr mainnet_rpc"
    by (simp add: chainId_or_default_def getProvider_mainnet)
  have a: "getMulticallAddress (chainId_or_default (Some 1)) = Inr ''0x5BA1e12693Dc8F9c48aAD8770482f4739bEeD696''"
    by (simp add: chainId_or_default_def getMulticallAddress_mainnet)
  have e: "encodeFunctionData ?E OWNER = Inr balanceOf_OWNER"
    by (simp add: mock_ethers_def balanceOf_OWNER_def)
  have r: "aggregate ?E provider address calls = Inl (JsError ''invalid address'')"
          "tryAggregate ?E provider address requireSuccess calls = Inl (JsError ''invalid address'')"
    for provider address requireSuccess calls
    by (simp_all add: mock_ethers_def)
  have bad: "\<not> isHexAddress ''not-an-address''"
    by (simp add: isHexAddress_def)
  show ?thesis
    using bad r e
      targets_passed_unchecked [OF p a, where E = ?E and owner = OWNER and data = balanceOf_OWNER
        and tokens = "[DAI, ''not-an-address'']" and cause = "''invalid address''"
        and calls = "[\<lparr>target = ''not-an-address'', callData = balanceOf_OWNER\<rparr>]"
        and requireSuccess = "Some True" and cause' = "''invalid address''"]
    by (simp add: prod_eq_iff requireSuccess_or_default_def)
qed

theorem invalid_target_counterexample:
  "\<not> isHexAddress ''not-an-address'' \<and>
   getErc20BatchBalances (mock_ethers (Inr (0, [word_3e8])) (Inr [(True, word_3e8)]))
     mainnet_manager \<lparr>ownerAddress = OWNER, tokenAddresses = [''not-an-address'']\<rparr> (Some 1) =
     ([AggregateCall mainnet_rpc ''0x5BA1e12693Dc8F9c48aAD8770482f4739bEeD696''
         [\<lparr>target = ''not-an-address'', callData = balanceOf_OWNER\<rparr>]],
      Inr [(''not-an-address'', ''1000'')]) \<and>
   batchCalls (mock_ethers (Inr (0, [word_3e8])) (Inr [(True, word_3e8)]))
     mainnet_manager [\<lparr>target = ''not-an-address'', callData = balanceOf_OWNER\<rparr>] (Some 1) None =
     ([TryAggregateCall mainnet_rpc ''0x5BA1e12693Dc8F9c48aAD8770482f4739bEeD696'' False
         [\<lparr>target = ''not-an-address'', callData = balanceOf_OWNER\<rparr>]],
      Inr [\<lparr>success = True, returnData = word_3e8\<rparr>])"
  by (simp add: isHexAddress_def getErc20BatchBalances_def batchCalls_def chainId_or_default_def
        requireSuccess_or_default_def getProvider_mainnet
        getMulticallAddress_mainnet mock_ethers_def process_results.simps Result_index_def
        mock_decode_def word_3e8_def BigInt_toString.simps digit_char_def balanceOf_OWNER_def)

section \<open>Unsupported chains\<close>

text \<open>
  C5, as the code has it. For a chain id absent from the address table, both operations
  throw before any call on the contract object, and the error is not wrapped; it is
  \<open>Provider not found for chain ID <id>\<close> when the manager has no provider for the chain
  (the provider is looked up first), and \<open>Multicall2 address not found for chain ID <id>\<close>
  otherwise.
\<close>

theorem unsupported_chain:
  assumes "c \<notin> fst ` set MULTICALL2_ADDRESSES"
  shows "getErc20BatchBalances E pm params (Some c) =
           ([], Inl (JsError
              (let id = (if c = 0 then defaultChainId pm else c) in
               if providers pm id = None then ''Provider not found for chain ID '' @ Number_toString id
               else ''Multicall2 address not found for chain ID '' @ Number_toString c))) \<and>
         batchCalls E pm calls (Some c) requireSuccess =
           ([], Inl (JsError
              (let id = (if c = 0 then defaultChainId pm else c) in
               if providers pm id = None then ''Provider not found for chain ID '' @ Number_toString id
               else ''Multicall2 address not found for chain ID '' @ Number_toString c)))"
  using getMulticallAddress_absent [OF assms]
  by (auto simp add: getErc20BatchBalances_def batchCalls_def chainId_or_default_def
        getProvider_def Let_def split: option.splits)

theorem unsupported_chain_witness:
  "5 \<notin> fst ` set MULTICALL2_ADDRESSES \<and>
   getErc20BatchBalances (mock_ethers (Inr (0, [word_3e8])) (Inr [])) goerli_manager
     \<lparr>ownerAddress = OWNER, tokenAddresses = [DAI]\<rparr> (Some 5) =
       ([], Inl (JsError ''Multicall2 address not found for chain ID 5'')) \<and>
   batchCalls (mock_ethers (Inr (0, [word_3e8])) (Inr [])) goerli_manager
     [\<lparr>target = DAI, callData = balanceOf_OWNER\<rparr>] (Some 5) None =
       ([], Inl (JsError ''Multicall2 address not found for chain ID 5''))"
proof -
  have absent: "5 \<notin> fst ` set MULTICALL2_ADDRESSES"
    by (simp add: MULTICALL2_ADDRESSES_def)
  show ?thesis
    using absent
      unsupported_chain [OF absent, of "mock_ethers (Inr (0, [word_3e8])) (Inr [])" goerli_manager
        "\<lparr>ownerAddress = OWNER, tokenAddresses = [DAI]\<rparr>"
        "[\<lparr>target = DAI, callData = balanceOf_OWNER\<rparr>]" None]
    by (simp add: goerli_manager_def Number_toString_5)
qed

theorem unsupported_chain_counterexample:
  "5 \<notin> fst ` set MULTICALL2_ADDRESSES \<and>
   getErc20BatchBalances (mock_ethers (Inr (0, [word_3e8])) (Inr [])) mainnet_manager
     \<lparr>ownerAddress = OWNER, tokenAddresses = [DAI]\<rparr> (Some 5) =
       ([], Inl (JsError ''Provider not found for chain ID 5'')) \<and>
   ''Provider not found for chain ID 5'' \<noteq> ''Multicall2 address not found for chain ID '' @ Number_toString 5"
  by (simp add: MULTICALL2_ADDRESSES_def getErc20BatchBalances_def chainId_or_default_def
        getProvider_def mainnet_manager_def Number_toString_5)

section \<open>Failure of the round-trip\<close>

text \<open>
  C6. When the provider and the contract address are found and the calls are encoded, and
  the \<open>aggregate\<close> round-trip throws an error with message \<open>cause\<close>, then
  \<open>getErc20BatchBalances\<close> made that one call and throws the single error
  \<open>Failed to get batch balances: <cause>\<close>; no map is returned.
\<close>

theorem aggregate_failure_wrapped:
  assumes "getProvider pm (Some (chainId_or_default chainId)) = Inr provider"
    and "getMulticallAddress (chainId_or_default chainId) = Inr address"
    and "prepare_calls E owner tokens = Inr calls"
    and "aggregate E provider address calls = Inl (JsError cause)"
  shows "getErc20BatchBalances E pm \<lparr>ownerAddress = owner, tokenAddresses = tokens\<rparr> chainId =
           ([AggregateCall provider address calls],
            Inl (JsError (''Failed to get batch balances: '' @ cause)))"
  using assms by (simp add: getErc20BatchBalances_sent batch_balances_failure_def)

theorem aggregate_failure_wrapped_witness:
  "getErc20BatchBalances (mock_ethers (Inl (JsError ''execution reverted'')) (Inr []))
     mainnet_manager \<lparr>ownerAddress = OWNER, tokenAddresses = [DAI, USDC]\<rparr> None =
     ([AggregateCall mainnet_rpc ''0x5BA1e12693Dc8F9c48aAD8770482f4739bEeD696''
         [\<lparr>target = DAI, callData = balanceOf_OWNER\<rparr>, \<lparr>target = USDC, callData = balanceOf_OWNER\<rparr>]],
      Inl (JsError ''Failed to get batch balances: execution reverted''))"
proof -
  let ?E = "mock_ethers (Inl (JsError ''execution reverted'')) (Inr [])"
  have p: "getProvider mainnet_manager (Some (chainId_or_default None)) = Inr mainnet_rpc"
    by (simp add: chainId_or_default_def getProvider_mainnet)
  have a: "getMulticallAddress (chainId_or_default None) = Inr ''0x5BA1e12693Dc8F9c48aAD8770482f4739bEeD696''"
    by (simp add: chainId_or_default_def getMulticallAddress_mainnet)
  have c: "prepare_calls ?E OWNER [DAI, USDC] =
             Inr [\<lparr>target = DAI, callData = balanceOf_OWNER\<rparr>, \<lparr>target = USDC, callData = balanceOf_OWNER\<rparr>]"
    using prepare_calls_mock [of "Inl (JsError ''execution reverted'')" "Inr []" "[DAI, USDC]"] by simp
  have r: "aggregate ?E mainnet_rpc ''0x5BA1e12693Dc8F9c48aAD8770482f4739bEeD696''
             [\<lparr>target = DAI, callData = balanceOf_OWNER\<rparr>, \<lparr>target = USDC, callData = balanceOf_OWNER\<rparr>] =
           Inl (JsError ''execution reverted'')"
    by (simp add: mock_ethers_def)
  show ?thesis
    using aggregate_failure_wrapped [OF p a c r] by simp
qed

section \<open>Failures of single calls\<close>

text \<open>
  C7. When \<open>batchCalls\<close> runs with \<open>requireSuccess\<close> false (given or by default) and the
  contract answers, the operation returns normally: one \<open>CallResult\<close> per tuple, whose
  \<open>success\<close> flag is the tuple's, so a failed call is the value \<open>success = false\<close> at its
  position.
\<close>

theorem best_effort_failures_are_data:
  assumes "getProvider pm (Some (chainId_or_default chainId)) = Inr provider"
    and "getMulticallAddress (chainId_or_default chainId) = Inr address"
    and "requireSuccess = None \<or> requireSuccess = Some False"
    and "tryAggregate E provider address False calls = Inr results"
  shows "\<exists>out. snd (batchCalls E pm calls chainId requireSuccess) = Inr out \<and>
           length out = length results \<and>
           (\<forall>i<length results. success (out ! i) = fst (results ! i) \<and>
                               returnData (out ! i) = snd (results ! i))"
  using assms by (auto simp add: batchCalls_sent requireSuccess_or_default_def)

theorem best_effort_failures_are_data_witness:
  "\<exists>out. snd (batchCalls (mock_ethers (Inl NonError) (Inr [(True, word_3e8), (False, ''0x''), (True, word_64)]))
            mainnet_manager
            [\<lparr>target = DAI, callData = balanceOf_OWNER\<rparr>, \<lparr>target = OWNER, callData = balanceOf_OWNER\<rparr>,
             \<lparr>target = USDC, callData = balanceOf_OWNER\<rparr>] (Some 1) (Some False)) = Inr out \<and>
     length out = 3 \<and> success (out ! 0) \<and> \<not> success (out ! 1) \<and> success (out ! 2)"
proof -
  let ?E = "mock_ethers (Inl NonError) (Inr [(True, word_3e8), (False, ''0x''), (True, word_64)])"
  let ?calls = "[\<lparr>target = DAI, callData = balanceOf_OWNER\<rparr>, \<lparr>target = OWNER, callData = balanceOf_OWNER\<rparr>,
             \<lparr>target = USDC, callData = balanceOf_OWNER\<rparr>]"
  have p: "getProvider mainnet_manager (Some (chainId_or_default (Some 1))) = Inr mainnet_rpc"
    by (simp add: chainId_or_default_def getProvider_mainnet)
  have a: "getMulticallAddress (chainId_or_default (Some 1)) = Inr ''0x5BA1e12693Dc8F9c48aAD8770482f4739bEeD696''"
    by (simp add: chainId_or_default_def getMulticallAddress_mainnet)
  have f: "Some False = None \<or> Some False = Some False"
    by simp
  have t: "tryAggregate ?E mainnet_rpc ''0x5BA1e12693Dc8F9c48aAD8770482f4739bEeD696'' False ?calls =
             Inr [(True, word_3e8), (False, ''0x''), (True, word_64)]"
    by (simp add: mock_ethers_def)
  from best_effort_failures_are_data [OF p a f t] obtain out where
    ret: "snd (batchCalls ?E mainnet_manager ?calls (Some 1) (Some False)) = Inr out"
    and len: "length out = length [(True, word_3e8), (False, ''0x''), (True, word_64)]"
    and flags: "\<forall>i<length [(True, word_3e8), (False, ''0x''), (True, word_64)].
        success (out ! i) = fst ([(True, word_3e8), (False, ''0x''), (True, word_64)] ! i) \<and>
        returnData (out ! i) = snd ([(True, word_3e8), (False, ''0x''), (True, word_64)] ! i)"
    by blast
  have "success (out ! 0)"
    using flags [rule_format, of 0] by simp
  moreover have "\<not> success (out ! 1)"
    using flags [rule_format, of 1] by simp
  moreover have "success (out ! 2)"
    using flags [rule_format, of 2] by simp
  ultimately have "snd (batchCalls ?E mainnet_manager ?calls (Some 1) (Some False)) = Inr out \<and>
     length out = 3 \<and> success (out ! 0) \<and> \<not> success (out ! 1) \<and> success (out ! 2)"
    using ret len by simp
  then show ?thesis ..
qed

section \<open>The address table\<close>

text \<open>
  C8. The lookup of the batching-contract address returns the table's address for the six
  chain ids 1, 137, 56, 8453, 10 and 42161 (the last three sharing one address) and throws
  \<open>Multicall2 address not found for chain ID <id>\<close> for every other chain id.
\<close>

theorem getMulticallAddress_table:
  "getMulticallAddress c =
     (if c = 1 then Inr ''0x5BA1e12693Dc8F9c48aAD8770482f4739bEeD696''
      else if c = 137 then Inr ''0x275617327c958bD06b5D6b871E7f491D76113dd8''
      else if c = 56 then Inr ''0xa9193376D09C7f31283C54e56D013fCF370Cd9D9''
      else if c = 8453 \<or> c = 10 \<or> c = 42161 then Inr ''0xcA11bde05977b3631167028862bE2a173976CA11''
      else Inl (JsError (''Multicall2 address not found for chain ID '' @ Number_toString c)))"
  by (simp add: getMulticallAddress_def map_of_MULTICALL2_ADDRESSES)

section \<open>Registering a connection\<close>

text \<open>
  C9, as the code has it. For a valid RPC URL and a non-empty private key that
  \<open>isValidPrivateKey\<close> rejects, \<open>addProvider\<close> throws \<open>Invalid private key\<close> and leaves the
  signer map unchanged, but the provider for the new URL is already stored under the chain
  id: the URL is validated before anything is stored, the key only after the provider is
  stored and before the signer is. An empty key string is treated as no key: the call does
  what it does without a key, and for a valid URL it stores the provider and returns
  without failing.
\<close>

theorem addProvider_invalid_key:
  assumes "isValidRpcUrl E rpcUrl"
  shows "(key \<noteq> [] \<and> \<not> isValidPrivateKey E key \<longrightarrow>
            addProvider E pm rpcUrl chainId (Some key) =
              (pm\<lparr>providers := (providers pm)(chainId \<mapsto> JsonRpcProvider rpcUrl)\<rparr>,
               Inl (JsError ''Invalid private key'')) \<and>
            signers (fst (addProvider E pm rpcUrl chainId (Some key))) = signers pm \<and>
            providers (fst (addProvider E pm rpcUrl chainId (Some key))) chainId =
              Some (JsonRpcProvider rpcUrl)) \<and>
         addProvider E pm rpcUrl chainId (Some []) = addProvider E pm rpcUrl chainId None \<and>
         addProvider E pm rpcUrl chainId (Some []) =
           (pm\<lparr>providers := (providers pm)(chainId \<mapsto> JsonRpcProvider rpcUrl)\<rparr>, Inr ())"
  using assms by (simp add: addProvider_def)

theorem addProvider_invalid_key_witness:
  "isValidRpcUrl (mock_ethers (Inl NonError) (Inl NonError)) ''https://bsc-dataseed.binance.org/'' \<and>
   \<not> isValidPrivateKey (mock_ethers (Inl NonError) (Inl NonError)) ''0xdeadbeef'' \<and>
   snd (addProvider (mock_ethers (Inl NonError) (Inl NonError)) mainnet_manager
          ''https://bsc-dataseed.binance.org/'' 56 (Some ''0xdeadbeef'')) =
     Inl (JsError ''Invalid private key'') \<and>
   signers (fst (addProvider (mock_ethers (Inl NonError) (Inl NonError)) mainnet_manager
          ''https://bsc-dataseed.binance.org/'' 56 (Some ''0xdeadbeef''))) = signers mainnet_manager \<and>
   providers (fst (addProvider (mock_ethers (Inl NonError) (Inl NonError)) mainnet_manager
          ''https://bsc-dataseed.binance.org/'' 56 (Some ''0xdeadbeef''))) 56 =
     Some (JsonRpcProvider ''https://bsc-dataseed.binance.org/'') \<and>
   snd (addProvider (mock_ethers (Inl NonError) (Inl NonError)) mainnet_manager
          ''https://bsc-dataseed.binance.org/'' 56 (Some [])) = Inr () \<and>
   providers (fst (addProvider (mock_ethers (Inl NonError) (Inl NonError)) mainnet_manager
          ''https://bsc-dataseed.binance.org/'' 56 (Some []))) 56 =
     Some (JsonRpcProvider ''https://bsc-dataseed.binance.org/'')"
proof -
  let ?E = "mock_ethers (Inl NonError) (Inl NonError)"
  have u: "isValidRpcUrl ?E ''https://bsc-dataseed.binance.org/''"
    by (simp add: isValidRpcUrl_def mock_ethers_def)
  have n: "''0xdeadbeef'' \<noteq> []"
    by simp
  have k: "\<not> isValidPrivateKey ?E ''0xdeadbeef''"
    by (simp add: isValidPrivateKey_def mock_ethers_def)
  note inst = addProvider_invalid_key [OF u, of "''0xdeadbeef''" mainnet_manager 56]
  from inst n k have bad:
    "addProvider ?E mainnet_manager ''https://bsc-dataseed.binance.org/'' 56 (Some ''0xdeadbeef'') =
       (mainnet_manager\<lparr>providers := (providers mainnet_manager)
            (56 \<mapsto> JsonRpcProvider ''https://bsc-dataseed.binance.org/'')\<rparr>,
        Inl (JsError ''Invalid private key''))"
    by blast
  from inst have empty:
    "addProvider ?E mainnet_manager ''https://bsc-dataseed.binance.org/'' 56 (Some []) =
       (mainnet_manager\<lparr>providers := (providers mainnet_manager)
            (56 \<mapsto> JsonRpcProvider ''https://bsc-dataseed.binance.org/'')\<rparr>, Inr ())"
    by blast
  show ?thesis
    using u k by (simp add: bad empty)
qed

theorem addProvider_invalid_key_counterexample:
  "isValidRpcUrl (mock_ethers (Inl NonError) (Inl NonError)) ''https://polygon-rpc.com'' \<and>
   \<not> isValidPrivateKey (mock_ethers (Inl NonError) (Inl NonError)) ''0x1234'' \<and>
   snd (addProvider (mock_ethers (Inl NonError) (Inl NonError)) mainnet_manager
          ''https://polygon-rpc.com'' 137 (Some ''0x1234'')) = Inl (JsError ''Invalid private key'') \<and>
   providers mainnet_manager 137 = None \<and>
   providers (fst (addProvider (mock_ethers (Inl NonError) (Inl NonError)) mainnet_manager
          ''https://polygon-rpc.com'' 137 (Some ''0x1234''))) 137 = Some polygon_rpc \<and>
   \<not> isValidPrivateKey (mock_ethers (Inl NonError) (Inl NonError)) [] \<and>
   snd (addProvider (mock_ethers (Inl NonError) (Inl NonError)) mainnet_manager
          ''https://polygon-rpc.com'' 137 (Some [])) = Inr ()"
  by (simp add: addProvider_def isValidRpcUrl_def isValidPrivateKey_def mock_ethers_def
        mainnet_manager_def polygon_rpc_def)

section \<open>The omitted chain id\<close>

text \<open>
  C10. Called without a chain id, both operations do exactly what they do for chain id 1,
  whatever the manager's default chain is. So when a provider is registered for chain 1 it
  is that provider, with the mainnet contract address, that the call is made on; and when
  none is registered they throw \<open>Provider not found for chain ID 1\<close>, although the manager
  has a provider for its default chain, which then differs from 1.
\<close>

theorem omitted_chain_is_mainnet:
  "getErc20BatchBalances E pm params None = getErc20BatchBalances E pm params (Some 1) \<and>
   batchCalls E pm calls None requireSuccess = batchCalls E pm calls (Some 1) requireSuccess \<and>
   (providers pm 1 = Some mainnet \<longrightarrow>
      fst (batchCalls E pm calls None requireSuccess) =
        [TryAggregateCall mainnet ''0x5BA1e12693Dc8F9c48aAD8770482f4739bEeD696''
           (requireSuccess_or_default requireSuccess) calls]) \<and>
   (providers pm 1 = Some mainnet \<and>
    prepare_calls E (ownerAddress params) (tokenAddresses params) = Inr prepared \<longrightarrow>
      fst (getErc20BatchBalances E pm params None) =
        [AggregateCall mainnet ''0x5BA1e12693Dc8F9c48aAD8770482f4739bEeD696'' prepared]) \<and>
   (providers pm 1 = None \<and> providers pm (defaultChainId pm) = Some provider \<longrightarrow>
      defaultChainId pm \<noteq> 1 \<and>
      getProvider pm None = Inr provider \<and>
      getErc20BatchBalances E pm params None =
        ([], Inl (JsError ''Provider not found for chain ID 1'')) \<and>
      batchCalls E pm calls None requireSuccess =
        ([], Inl (JsError ''Provider not found for chain ID 1'')))"
  by (auto simp add: getProvider_def getErc20BatchBalances_def batchCalls_def Let_def
        chainId_or_default_def getMulticallAddress_mainnet Number_toString_1)

theorem omitted_chain_is_mainnet_witness:
  "providers polygon_manager 1 = None \<and>
   providers polygon_manager (defaultChainId polygon_manager) = Some polygon_rpc \<and>
   defaultChainId polygon_manager = 137 \<and>
   getProvider polygon_manager None = Inr polygon_rpc \<and>
   getErc20BatchBalances (mock_ethers (Inr (0, [word_3e8])) (Inr []))
     polygon_manager \<lparr>ownerAddress = OWNER, tokenAddresses = [DAI]\<rparr> None =
       ([], Inl (JsError ''Provider not found for chain ID 1'')) \<and>
   batchCalls (mock_ethers (Inr (0, [word_3e8])) (Inr []))
     polygon_manager [\<lparr>target = DAI, callData = balanceOf_OWNER\<rparr>] None None =
       ([], Inl (JsError ''Provider not found for chain ID 1'')) \<and>
   defaultChainId polygon_mainnet_manager = 137 \<and>
   getProvider polygon_mainnet_manager None = Inr polygon_rpc \<and>
   fst (getErc20BatchBalances (mock_ethers (Inr (0, [word_3e8])) (Inr []))
     polygon_mainnet_manager \<lparr>ownerAddress = OWNER, tokenAddresses = [DAI]\<rparr> None) =
       [AggregateCall mainnet_rpc ''0x5BA1e12693Dc8F9c48aAD8770482f4739bEeD696''
          [\<lparr>target = DAI, callData = balanceOf_OWNER\<rparr>]] \<and>
   fst (batchCalls (mock_ethers (Inr (0, [word_3e8])) (Inr []))
     polygon_mainnet_manager [\<lparr>target = DAI, callData = balanceOf_OWNER\<rparr>] None None) =
       [TryAggregateCall mainnet_rpc ''0x5BA1e12693Dc8F9c48aAD8770482f4739bEeD696'' False
          [\<lparr>target = DAI, callData = balanceOf_OWNER\<rparr>]]"
proof -
  let ?E = "mock_ethers (Inr (0, [word_3e8])) (Inr [])"
  let ?params = "\<lparr>ownerAddress = OWNER, tokenAddresses = [DAI]\<rparr>"
  let ?calls = "[\<lparr>target = DAI, callData = balanceOf_OWNER\<rparr>]"
  have a: "providers polygon_manager 1 = None"
    by (simp add: polygon_manager_def)
  have b: "providers polygon_manager (defaultChainId polygon_manager) = Some polygon_rpc"
    by (simp add: polygon_manager_def)
  have c: "defaultChainId polygon_manager = 137"
    by (simp add: polygon_manager_def)
  have d: "providers polygon_mainnet_manager 1 = Some mainnet_rpc"
    by (simp add: polygon_mainnet_manager_def)
  have e: "defaultChainId polygon_mainnet_manager = 137"
    by (simp add: polygon_mainnet_manager_def)
  have f: "getProvider polygon_mainnet_manager None = Inr polygon_rpc"
    by (simp add: getProvider_def polygon_mainnet_manager_def)
  have g: "prepare_calls ?E (ownerAddress ?params) (tokenAddresses ?params) = Inr ?calls"
    using prepare_calls_mock [of "Inr (0, [word_3e8])" "Inr []" "[DAI]"] by simp
  have r: "requireSuccess_or_default None = False"
    by (simp add: requireSuccess_or_default_def)
  note absent = omitted_chain_is_mainnet [where E = ?E and pm = polygon_manager
      and params = ?params and calls = ?calls and requireSuccess = None and provider = polygon_rpc]
  note present = omitted_chain_is_mainnet [where E = ?E and pm = polygon_mainnet_manager
      and params = ?params and calls = ?calls and requireSuccess = None
      and mainnet = mainnet_rpc and prepared = ?calls]
  have first: "getProvider polygon_manager None = Inr polygon_rpc \<and>
      getErc20BatchBalances ?E polygon_manager ?params None =
        ([], Inl (JsError ''Provider not found for chain ID 1'')) \<and>
      batchCalls ?E polygon_manager ?calls None None =
        ([], Inl (JsError ''Provider not found for chain ID 1''))"
    using absent a b by blast
  have second: "fst (getErc20BatchBalances ?E polygon_mainnet_manager ?params None) =
        [AggregateCall mainnet_rpc ''0x5BA1e12693Dc8F9c48aAD8770482f4739bEeD696'' ?calls]"
    using present d g by blast
  have "fst (batchCalls ?E polygon_mainnet_manager ?calls None None) =
        [TryAggregateCall mainnet_rpc ''0x5BA1e12693Dc8F9c48aAD8770482f4739bEeD696''
           (requireSuccess_or_default None) ?calls]"
    using present d by blast
  then have third: "fst (batchCalls ?E polygon_mainnet_manager ?calls None None) =
        [TryAggregateCall mainnet_rpc ''0x5BA1e12693Dc8F9c48aAD8770482f4739bEeD696'' False ?calls]"
    by (simp only: r)
  from a b c e f first second third show ?thesis by blast
qed

end
